theory Spec2Isabelle
  imports Complex_Main
begin

section \<open>Database rows (shared/schema)\<close>

text \<open>
  One record per table, one field per column. A nullable column is an option, a
  \<open>timestamp\<close> is the number of milliseconds since the epoch, a \<open>json\<close> column is
  its JSON text, a \<open>real\<close> column is a real number. Field names that several
  tables share are written with the table's name in front (\<open>Plan.userId\<close>).
\<close>

datatype userRole = USER | COACH | ADMIN

datatype level = BEGINNER | INTERMEDIATE | ADVANCED

datatype planStatus = CREATING | ACTIVE | PAUSED | COMPLETED

record User =
  id :: string
  email :: string
  password :: string
  name :: string
  role :: userRole
  heightCm :: "int option"
  weightKg :: "real option"
  bio :: "string option"
  goal :: "string option"
  fitnessLevel :: "level option"
  availableEquipment :: "string list option"
  injuries :: "string option"
  isVerified :: bool
  lastLogin :: "int option"
  createdAt :: int
  updatedAt :: int

record Plan =
  id :: string
  userId :: string
  title :: string
  description :: "string option"
  goal :: string
  level :: level
  frequencyPerWeek :: int
  durationWeeks :: int
  data :: "string option"
  generatedByAI :: bool
  status :: planStatus
  disclaimer :: "string option"
  createdAt :: int
  updatedAt :: int

record WorkoutSession =
  id :: string
  userId :: string
  planId :: "string option"
  date :: int
  duration :: "int option"
  exercises :: "string option"
  caloriesBurned :: "int option"
  notes' :: "string option"
  completed :: bool
  createdAt :: int

record Progress =
  id :: string
  userId :: string
  date :: int
  weightKg :: "real option"
  bodyFatPct :: "real option"
  measurements :: "string option"
  photoUrl :: "string option"
  notes' :: "string option"
  createdAt :: int

text \<open>The database is the content of its tables, each a list of rows.\<close>

record Database =
  users :: "User list"
  plans :: "Plan list"
  workoutSessions :: "WorkoutSession list"
  progress :: "Progress list"

section \<open>Plan data (shared/schema)\<close>

text \<open>
  The JSON body of a plan: weeks, each with days, each with exercises. Optional
  fields of the TypeScript types are options. JavaScript numbers that only ever
  hold integers here (week and day counters, sets, rest seconds) are \<open>int\<close>.
  Strings are lists of characters.
\<close>

record PlanExercise =
  exerciseId :: "string option"
  name :: string
  sets :: int
  reps :: string
  rest :: int
  notes' :: "string option"

record PlanDay =
  dayNumber :: int
  name :: string
  exercises :: "PlanExercise list"
  restDay :: "bool option"

record PlanWeek =
  weekNumber :: int
  days :: "PlanDay list"

record PlanData =
  weeks :: "PlanWeek list"

text \<open>
  \<open>GeneratePlanData\<close> is the request body accepted by \<open>generatePlanSchema\<close>:
  \<open>frequencyPerWeek\<close> between 1 and 7, \<open>durationWeeks\<close> between 1 and 52, a
  non-empty \<open>goal\<close>, and a \<open>level\<close> out of the three enum values. The two
  numbers are whole numbers, as the integer columns of the plan row that stores them
  require; the schema alone would also let a fraction pass.
\<close>

record GeneratePlanData =
  goal :: string
  level :: level
  frequencyPerWeek :: int
  durationWeeks :: int
  equipment :: "string list option"
  timePerDay :: "int option"
  injuries :: "string option"

record GeneratedPlan =
  title :: string
  description :: string
  data :: PlanData

section \<open>JavaScript primitives used by the fallback generator\<close>

text \<open>\<open>a % b\<close>: the remainder takes the sign of the dividend.\<close>

definition js_rem :: "int \<Rightarrow> int \<Rightarrow> int" where
  "js_rem a b = sgn a * (\<bar>a\<bar> mod \<bar>b\<bar>)"

text \<open>
  \<open>xs.slice(0, e)\<close>: a negative end counts from the end of the array, an end past
  the length is clipped to the length.
\<close>

definition slice0 :: "'a list \<Rightarrow> int \<Rightarrow> 'a list" where
  "slice0 xs e = (if e < 0 then take (length xs - nat (- e)) xs else take (nat e) xs)"

text \<open>Decimal rendering of an integer, as a template literal does.\<close>

fun digits :: "nat \<Rightarrow> string" where
  "digits n = (if n < 10 then [''0123456789'' ! n]
               else digits (n div 10) @ [''0123456789'' ! (n mod 10)])"

declare digits.simps [simp del]

definition numStr :: "int \<Rightarrow> string" where
  "numStr i = (if i < 0 then CHR ''-'' # digits (nat (- i)) else digits (nat i))"

text \<open>
  \<open>s.replace(pat, rep)\<close> with a string pattern replaces the first occurrence only.
\<close>

fun replace :: "string \<Rightarrow> string \<Rightarrow> string \<Rightarrow> string" where
  "replace pat rep s =
     (if take (length pat) s = pat then rep @ drop (length pat) s
      else (case s of [] \<Rightarrow> [] | c # cs \<Rightarrow> c # replace pat rep cs))"

declare replace.simps [simp del]

text \<open>
  \<open>toLowerCase\<close> on the ASCII letters, which is all the enum strings of
  \<open>level\<close> contain.
\<close>

definition toLowerChar :: "char \<Rightarrow> char" where
  "toLowerChar c =
     (case map_of (zip ''ABCDEFGHIJKLMNOPQRSTUVWXYZ'' ''abcdefghijklmnopqrstuvwxyz'') c of
        Some l \<Rightarrow> l | None \<Rightarrow> c)"

definition toLowerCase :: "string \<Rightarrow> string" where
  "toLowerCase s = map toLowerChar s"

fun level_string :: "level \<Rightarrow> string" where
  "level_string BEGINNER = ''BEGINNER''"
| "level_string INTERMEDIATE = ''INTERMEDIATE''"
| "level_string ADVANCED = ''ADVANCED''"

section \<open>The fallback plan generator (server/openai.ts)\<close>

definition fallbackExercises :: "PlanExercise list" where
  "fallbackExercises =
    [\<lparr>exerciseId = None, PlanExercise.name = ''Push-ups'', sets = 3, reps = ''10-12'',
        rest = 60, notes' = Some ''Keep core engaged''\<rparr>,
     \<lparr>exerciseId = None, PlanExercise.name = ''Squats'', sets = 3, reps = ''12-15'',
        rest = 60, notes' = Some ''Keep back straight''\<rparr>,
     \<lparr>exerciseId = None, PlanExercise.name = ''Plank'', sets = 3, reps = ''30-60 sec'',
        rest = 45, notes' = Some ''Hold position''\<rparr>,
     \<lparr>exerciseId = None, PlanExercise.name = ''Lunges'', sets = 3, reps = ''10 each leg'',
        rest = 60, notes' = Some ''Step forward''\<rparr>,
     \<lparr>exerciseId = None, PlanExercise.name = ''Mountain Climbers'', sets = 3, reps = ''20'',
        rest = 45, notes' = Some ''Fast pace''\<rparr>,
     \<lparr>exerciseId = None, PlanExercise.name = ''Burpees'', sets = 3, reps = ''8-10'',
        rest = 90, notes' = Some ''Full extension''\<rparr>]"

text \<open>
  The inner loop \<open>for (let d = 1; d <= 7; d++)\<close>: \<open>days_acc\<close> is the array \<open>days\<close>
  built so far, and every iteration pushes one day.
\<close>

function days_loop :: "GeneratePlanData \<Rightarrow> int \<Rightarrow> int \<Rightarrow> PlanDay list \<Rightarrow> PlanDay list" where
  "days_loop params w d days_acc =
     (if d \<le> 7 then
        days_loop params w (d + 1)
          (days_acc @
            [if d \<le> frequencyPerWeek params then
               \<lparr>dayNumber = d,
                PlanDay.name = (if js_rem d 2 = 1 then ''Full Body Workout A''
                                else ''Full Body Workout B''),
                exercises = slice0 fallbackExercises (4 + js_rem w 2),
                restDay = Some False\<rparr>
             else
               \<lparr>dayNumber = d, PlanDay.name = ''Rest Day'', exercises = [],
                restDay = Some True\<rparr>])
      else days_acc)"
  by pat_completeness auto
termination
  by (relation "measure (\<lambda>(params, w, d, days_acc). nat (8 - d))") auto

declare days_loop.simps [simp del]

text \<open>The outer loop \<open>for (let w = 1; w <= params.durationWeeks; w++)\<close>.\<close>

function weeks_loop :: "GeneratePlanData \<Rightarrow> int \<Rightarrow> PlanWeek list \<Rightarrow> PlanWeek list" where
  "weeks_loop params w weeks_acc =
     (if w \<le> durationWeeks params then
        weeks_loop params (w + 1)
          (weeks_acc @ [\<lparr>weekNumber = w, days = days_loop params w 1 []\<rparr>])
      else weeks_acc)"
  by pat_completeness auto
termination
  by (relation "measure (\<lambda>(params, w, weeks_acc). nat (durationWeeks params + 1 - w))") auto

declare weeks_loop.simps [simp del]

text \<open>
  \<open>goalNames\<close> is an object literal, so \<open>goalNames[key]\<close> finds the six own
  properties and, for any other key, whatever a plain object inherits under that key
  (\<open>constructor\<close>, \<open>toString\<close>, ...). The inherited values are functions and objects of
  the JavaScript runtime, not of this program: \<open>inherited key\<close> is the text such a
  value renders to in a template literal, and \<open>None\<close> when a plain object has no
  property of that name. Every inherited value is truthy; an own value is truthy when
  it is not the empty string.
\<close>

definition goalNames :: "(string \<times> string) list" where
  "goalNames =
    [(''weight_loss'', ''Fat Burn''),
     (''muscle_gain'', ''Muscle Builder''),
     (''strength'', ''Strength Training''),
     (''endurance'', ''Endurance''),
     (''flexibility'', ''Flexibility''),
     (''general_fitness'', ''General Fitness'')]"

definition goalName :: "(string \<Rightarrow> string option) \<Rightarrow> string \<Rightarrow> string" where
  "goalName inherited key =
     (case map_of goalNames key of
        Some v \<Rightarrow> (if v = [] then ''Fitness'' else v)
      | None \<Rightarrow> (case inherited key of Some s \<Rightarrow> s | None \<Rightarrow> ''Fitness''))"

definition generateFallbackPlan ::
    "(string \<Rightarrow> string option) \<Rightarrow> GeneratePlanData \<Rightarrow> GeneratedPlan" where
  "generateFallbackPlan inherited params =
     \<lparr>title = goalName inherited (goal params) @ '' '' @ numStr (durationWeeks params)
                @ ''-Week Plan'',
      description = ''A '' @ toLowerCase (level_string (level params)) @ '' ''
                @ numStr (durationWeeks params) @ ''-week program focusing on ''
                @ replace ''_'' '' '' (goal params) @ ''. Train ''
                @ numStr (frequencyPerWeek params) @ '' days per week.'',
      data = \<lparr>weeks = weeks_loop params 1 []\<rparr>\<rparr>"

text \<open>
  What one iteration of the inner loop pushes for day \<open>d\<close> of week \<open>w\<close>, and what
  one iteration of the outer loop pushes for week \<open>w\<close>; the loops are shown below to
  build exactly these lists.
\<close>

definition fallbackDay :: "GeneratePlanData \<Rightarrow> int \<Rightarrow> int \<Rightarrow> PlanDay" where
  "fallbackDay params w d =
     (if d \<le> frequencyPerWeek params then
        \<lparr>dayNumber = d,
         PlanDay.name = (if js_rem d 2 = 1 then ''Full Body Workout A''
                         else ''Full Body Workout B''),
         exercises = slice0 fallbackExercises (4 + js_rem w 2),
         restDay = Some False\<rparr>
      else
        \<lparr>dayNumber = d, PlanDay.name = ''Rest Day'', exercises = [],
         restDay = Some True\<rparr>)"

definition fallbackWeek :: "GeneratePlanData \<Rightarrow> int \<Rightarrow> PlanWeek" where
  "fallbackWeek params w = \<lparr>weekNumber = w, days = map (fallbackDay params w) [1..7]\<rparr>"

text \<open>
  A sample request, and the inherited properties of a plain object as Node renders
  them in a template literal.
\<close>

definition nodeInherited :: "string \<Rightarrow> string option" where
  "nodeInherited key =
     (if key = ''constructor'' then Some ''function Object() { [native code] }''
      else if key = ''__proto__'' then Some ''[object Object]''
      else if key \<in> set [''toString'', ''toLocaleString'', ''valueOf'', ''hasOwnProperty'',
                          ''isPrototypeOf'', ''propertyIsEnumerable'', ''__defineGetter__'',
                          ''__defineSetter__'', ''__lookupGetter__'', ''__lookupSetter__'']
      then Some (''function '' @ key @ ''() { [native code] }'')
      else None)"

definition sampleRequest :: GeneratePlanData where
  "sampleRequest =
     \<lparr>goal = ''weight_loss'', level = BEGINNER, frequencyPerWeek = 3, durationWeeks = 4,
      equipment = None, timePerDay = None, injuries = None\<rparr>"

section \<open>Credentials and sessions (server/auth)\<close>

text \<open>
  The claims a token carries. \<open>jwt.sign\<close> adds the issue time \<open>iat\<close> and the
  expiry \<open>exp\<close>, both in seconds; \<open>jwt.verify\<close> returns the whole payload, of
  which the callers read \<open>id\<close>, \<open>email\<close> and \<open>role\<close>.
\<close>

record Claims =
  id :: string
  email :: string
  role :: string

record JwtPayload =
  id :: string
  email :: string
  role :: string
  iat :: nat
  exp :: nat

fun role_string :: "userRole \<Rightarrow> string" where
  "role_string USER = ''USER''"
| "role_string COACH = ''COACH''"
| "role_string ADMIN = ''ADMIN''"

text \<open>
  \<open>JWT_SECRET = process.env.SESSION_SECRET || "fitstack-secret-key"\<close>: the
  default is taken when the variable is unset and when it is the empty string.
\<close>

definition JWT_SECRET :: "string option \<Rightarrow> string" where
  "JWT_SECRET session_secret =
     (case session_secret of
        None \<Rightarrow> ''fitstack-secret-key''
      | Some s \<Rightarrow> (if s = [] then ''fitstack-secret-key'' else s))"

text \<open>\<open>expiresIn: "7d"\<close>, in seconds.\<close>

definition expiresIn_7d :: nat where
  "expiresIn_7d = 7 * 24 * 60 * 60"

text \<open>
  \<open>generateToken\<close> and \<open>verifyToken\<close> call the token library; its two functions
  are parameters here. \<open>sign claims secret expiresIn\<close> returns the token;
  \<open>verify token secret\<close> returns the payload or throws, and the thrown value is
  the left summand. The \<open>catch\<close> of \<open>verifyToken\<close> has no binding and no filter, so it
  turns every thrown value into \<open>null\<close>.
\<close>

definition generateToken ::
    "(Claims \<Rightarrow> string \<Rightarrow> nat \<Rightarrow> string) \<Rightarrow> string option \<Rightarrow> User \<Rightarrow> string" where
  "generateToken sign session_secret user =
     sign \<lparr>Claims.id = User.id user, email = User.email user,
            role = role_string (User.role user)\<rparr>
          (JWT_SECRET session_secret) expiresIn_7d"

definition verifyToken ::
    "(string \<Rightarrow> string \<Rightarrow> 'e + JwtPayload) \<Rightarrow> string option \<Rightarrow> string \<Rightarrow> JwtPayload option" where
  "verifyToken verify session_secret token =
     (case verify token (JWT_SECRET session_secret) of
        Inr decoded \<Rightarrow> Some decoded
      | Inl thrown \<Rightarrow> None)"

text \<open>
  The request as the middleware sees it: the \<open>Authorization\<close> header and the
  \<open>user\<close> property it sets. A middleware either sends a response (status and
  message) or calls \<open>next\<close> with the request.
\<close>

record AuthUser =
  id :: string
  email :: string
  role :: string

record AuthRequest =
  authorization :: "string option"
  user :: "AuthUser option"

datatype handled = Responded nat string | Next AuthRequest

definition requireAuth ::
    "(string \<Rightarrow> string \<Rightarrow> 'e + JwtPayload) \<Rightarrow> string option \<Rightarrow> AuthRequest \<Rightarrow> handled" where
  "requireAuth verify session_secret req =
     (case authorization req of
        None \<Rightarrow> Responded 401 ''Authentication required''
      | Some authHeader \<Rightarrow>
          if authHeader = [] \<or> take 7 authHeader \<noteq> ''Bearer ''
          then Responded 401 ''Authentication required''
          else
            (case verifyToken verify session_secret (drop 7 authHeader) of
               None \<Rightarrow> Responded 401 ''Invalid or expired token''
             | Some decoded \<Rightarrow>
                 Next (req\<lparr>user := Some \<lparr>AuthUser.id = JwtPayload.id decoded,
                                         email = JwtPayload.email decoded,
                                         role = JwtPayload.role decoded\<rparr>\<rparr>)))"

subsection \<open>The token library\<close>

text \<open>
  Modelled from the spec: the token library (\<open>jwt.sign\<close>, \<open>jwt.verify\<close>) is a
  dependency whose code is not among the sources. The spec says that issuing encodes
  the claims with a fixed expiry and signs them with the secret, and that verifying
  fails when the token is expired, malformed or badly signed. The model keeps the
  cryptography and the wire format abstract: \<open>signature lib secret payload\<close> is the
  signature of a payload under a secret, \<open>encode\<close> writes payload and signature into
  the token string, \<open>decode\<close> reads them back and is \<open>None\<close> on a malformed
  string. The clock \<open>now\<close> is in seconds.
\<close>

datatype JwtError = Malformed | BadSignature | Expired

record JwtLib =
  signature :: "string \<Rightarrow> JwtPayload \<Rightarrow> string"
  encode :: "JwtPayload \<Rightarrow> string \<Rightarrow> string"
  decode :: "string \<Rightarrow> (JwtPayload \<times> string) option"

definition jwt_sign :: "JwtLib \<Rightarrow> nat \<Rightarrow> Claims \<Rightarrow> string \<Rightarrow> nat \<Rightarrow> string" where
  "jwt_sign lib now claims secret expiresIn =
     (let payload = \<lparr>JwtPayload.id = Claims.id claims, email = Claims.email claims,
                     role = Claims.role claims, iat = now, exp = now + expiresIn\<rparr>
      in encode lib payload (signature lib secret payload))"

definition jwt_verify :: "JwtLib \<Rightarrow> nat \<Rightarrow> string \<Rightarrow> string \<Rightarrow> JwtError + JwtPayload" where
  "jwt_verify lib now token secret =
     (case decode lib token of
        None \<Rightarrow> Inl Malformed
      | Some (payload, s) \<Rightarrow>
          if s \<noteq> signature lib secret payload then Inl BadSignature
          else if exp payload \<le> now then Inl Expired
          else Inr payload)"

text \<open>The payload \<open>jwt_sign\<close> builds for the claims of a user at time \<open>issued\<close>.\<close>

definition issuedPayload :: "nat \<Rightarrow> User \<Rightarrow> JwtPayload" where
  "issuedPayload issued u =
     \<lparr>JwtPayload.id = User.id u, email = User.email u,
      role = role_string (User.role u), iat = issued, exp = issued + expiresIn_7d\<rparr>"

section \<open>The persistence adapter (server/storage)\<close>

text \<open>
  The queries read the tables; a \<open>where\<close> is a filter, an \<open>orderBy\<close> a sort on the
  column (with \<open>desc\<close>, on the negated column), \<open>limit\<close> a prefix, and the
  destructuring \<open>const [row] = ...\<close> takes the first row, \<open>undefined\<close> when there is
  none. The current time \<open>now\<close> (what \<open>new Date()\<close> returns) is a parameter, and so
  are the date functions the queries call, which belong to date-fns and to the
  runtime.
\<close>

record DateLib =
  subDays :: "int \<Rightarrow> int \<Rightarrow> int"
  startOfWeek :: "int \<Rightarrow> int"
  endOfWeek :: "int \<Rightarrow> int"
  toISOString :: "int \<Rightarrow> string"

definition orderByDesc :: "('a \<Rightarrow> int) \<Rightarrow> 'a list \<Rightarrow> 'a list" where
  "orderByDesc column rows = sort_key (\<lambda>r. - column r) rows"

definition firstRow :: "'a list \<Rightarrow> 'a option" where
  "firstRow rows = (case rows of [] \<Rightarrow> None | row # _ \<Rightarrow> Some row)"

text \<open>\<open>result[0]?.count || 0\<close>, for the one row a \<open>count()\<close> query returns.\<close>

definition countOr0 :: "'a list \<Rightarrow> int" where
  "countOr0 rows = (let c = int (length rows) in if c = 0 then 0 else c)"

definition getActivePlanByUserId :: "Database \<Rightarrow> string \<Rightarrow> Plan option" where
  "getActivePlanByUserId db userId' =
     firstRow (take 1 (orderByDesc Plan.createdAt
       (filter (\<lambda>p. Plan.userId p = userId' \<and> Plan.status p = ACTIVE) (plans db))))"

definition getWorkoutsThisWeek :: "DateLib \<Rightarrow> int \<Rightarrow> Database \<Rightarrow> string \<Rightarrow> int" where
  "getWorkoutsThisWeek lib now db userId' =
     (let weekStart = startOfWeek lib now;
          weekEnd = endOfWeek lib now
      in countOr0 (filter (\<lambda>s. WorkoutSession.userId s = userId'
                               \<and> weekStart \<le> WorkoutSession.date s
                               \<and> WorkoutSession.date s \<le> weekEnd)
                    (workoutSessions db)))"

record ChartPoint =
  date :: string
  weight :: real

definition getProgressChart :: "DateLib \<Rightarrow> int \<Rightarrow> Database \<Rightarrow> string \<Rightarrow> int \<Rightarrow> ChartPoint list" where
  "getProgressChart lib now db userId' days_back =
     (let startDate = subDays lib now days_back;
          entries = map (\<lambda>r. (Progress.date r, Progress.weightKg r))
                      (sort_key Progress.date
                        (filter (\<lambda>r. Progress.userId r = userId' \<and> startDate \<le> Progress.date r)
                          (progress db)))
      in map (\<lambda>e. \<lparr>date = toISOString lib (fst e), weight = the (snd e)\<rparr>)
           (filter (\<lambda>e. snd e \<noteq> None) entries))"

record UserStats =
  totalWorkouts :: int
  thisWeek :: int
  streak :: int
  caloriesBurned :: int

record AdminStats =
  totalUsers :: int
  totalPlans :: int
  totalWorkouts :: int
  averageWorkoutsPerWeek :: int

text \<open>
  \<open>COALESCE(SUM(calories_burned), 0)\<close> adds the values that are not null, and
  \<open>|| 0\<close> leaves the sum as it is.
\<close>

definition getUserStats :: "DateLib \<Rightarrow> int \<Rightarrow> Database \<Rightarrow> string \<Rightarrow> UserStats" where
  "getUserStats lib now db userId' =
     (let totalResult = filter (\<lambda>s. WorkoutSession.userId s = userId') (workoutSessions db);
          thisWeek' = getWorkoutsThisWeek lib now db userId';
          caloriesResult = sum_list (List.map_filter WorkoutSession.caloriesBurned
                             (filter (\<lambda>s. WorkoutSession.userId s = userId') (workoutSessions db)))
      in \<lparr>UserStats.totalWorkouts = countOr0 totalResult,
          thisWeek = thisWeek',
          streak = 0,
          caloriesBurned = (if caloriesResult = 0 then 0 else caloriesResult)\<rparr>)"

definition getAdminStats :: "Database \<Rightarrow> AdminStats" where
  "getAdminStats db =
     \<lparr>totalUsers = countOr0 (users db),
      totalPlans = countOr0 (plans db),
      AdminStats.totalWorkouts = countOr0 (workoutSessions db),
      averageWorkoutsPerWeek = 0\<rparr>"

section \<open>Sample data\<close>

text \<open>
  A token library for the examples: the signature is the secret followed by the
  fields of the payload, the token is the fields and the signature separated by
  \<open>|\<close>, and decoding splits the token at that character.
\<close>

fun splitOn :: "char \<Rightarrow> string \<Rightarrow> string list" where
  "splitOn c [] = [[]]"
| "splitOn c (x # xs) =
     (if x = c then [] # splitOn c xs
      else (case splitOn c xs of [] \<Rightarrow> [[x]] | y # ys \<Rightarrow> (x # y) # ys))"

definition digitVal :: "char \<Rightarrow> nat option" where
  "digitVal c = map_of (zip ''0123456789'' [0, 1, 2, 3, 4, 5, 6, 7, 8, 9]) c"

definition natOfDigits :: "string \<Rightarrow> nat option" where
  "natOfDigits s =
     (if s = [] then None
      else foldl (\<lambda>acc c. case acc of None \<Rightarrow> None
                           | Some a \<Rightarrow> (case digitVal c of None \<Rightarrow> None
                                        | Some d \<Rightarrow> Some (10 * a + d)))
             (Some 0) s)"

definition sampleJwt :: JwtLib where
  "sampleJwt =
     \<lparr>signature = (\<lambda>secret p. secret @ ''/'' @ JwtPayload.id p @ ''/'' @ JwtPayload.email p
                      @ ''/'' @ JwtPayload.role p @ ''/'' @ digits (iat p) @ ''/'' @ digits (exp p)),
      encode = (\<lambda>p s. JwtPayload.id p @ ''|'' @ JwtPayload.email p @ ''|'' @ JwtPayload.role p
                      @ ''|'' @ digits (iat p) @ ''|'' @ digits (exp p) @ ''|'' @ s),
      decode = (\<lambda>token.
         case splitOn CHR ''|'' token of
           [i, e, r, a, x, s] \<Rightarrow>
             (case natOfDigits a of None \<Rightarrow> None
              | Some a' \<Rightarrow> (case natOfDigits x of None \<Rightarrow> None
                 | Some x' \<Rightarrow> Some (\<lparr>JwtPayload.id = i, email = e, role = r, iat = a', exp = x'\<rparr>, s)))
         | _ \<Rightarrow> None)\<rparr>"

definition sampleUser :: User where
  "sampleUser =
     \<lparr>User.id = ''u1'', email = ''ann@example.org'', password = ''$2b$10$hash'',
      name = ''Ann'', role = USER, heightCm = None, weightKg = None, bio = None,
      goal = None, fitnessLevel = None, availableEquipment = None, injuries = None,
      isVerified = False, lastLogin = None, createdAt = 0, updatedAt = 0\<rparr>"

definition samplePayload :: JwtPayload where
  "samplePayload =
     \<lparr>JwtPayload.id = ''u1'', email = ''ann@example.org'', role = ''USER'',
      iat = 1000, exp = 605800\<rparr>"

text \<open>
  The token issued to the sample user at time 1000 under the default secret, the
  same token with the role changed, and a string that is no token.
\<close>

definition sampleToken :: string where
  "sampleToken = ''u1|ann@example.org|USER|1000|605800|fitstack-secret-key/u1/ann@example.org/USER/1000/605800''"

definition tamperedToken :: string where
  "tamperedToken = ''u1|ann@example.org|ADMIN|1000|605800|fitstack-secret-key/u1/ann@example.org/USER/1000/605800''"

definition malformedToken :: string where
  "malformedToken = ''not-a-token''"

definition bearer :: "string \<Rightarrow> AuthRequest" where
  "bearer token = \<lparr>authorization = Some (''Bearer '' @ token), user = None\<rparr>"

text \<open>
  The rows \<open>getProgressChart\<close> renders: those of the user from the start date on,
  in the order of their dates, without the rows that have no weight.
\<close>

definition chartRows :: "DateLib \<Rightarrow> int \<Rightarrow> Database \<Rightarrow> string \<Rightarrow> int \<Rightarrow> Progress list" where
  "chartRows lib now db userId' days_back =
     filter (\<lambda>r. Progress.weightKg r \<noteq> None)
       (sort_key Progress.date
         (filter (\<lambda>r. Progress.userId r = userId' \<and> subDays lib now days_back \<le> Progress.date r)
           (progress db)))"

text \<open>
  A date library for the examples: a day is 86400000 milliseconds, weeks are counted
  from the epoch, and a date is rendered as its number of milliseconds.
\<close>

definition sampleDates :: DateLib where
  "sampleDates =
     \<lparr>subDays = (\<lambda>d n. d - n * 86400000),
      startOfWeek = (\<lambda>d. d - d mod 604800000),
      endOfWeek = (\<lambda>d. d - d mod 604800000 + 604799999),
      toISOString = numStr\<rparr>"

definition sampleNow :: int where
  "sampleNow = 100 * 86400000"

definition samplePlan :: "string \<Rightarrow> string \<Rightarrow> planStatus \<Rightarrow> int \<Rightarrow> Plan" where
  "samplePlan pid uid st created =
     \<lparr>Plan.id = pid, userId = uid, title = ''Fat Burn 4-Week Plan'', description = None,
      goal = ''weight_loss'', level = BEGINNER, frequencyPerWeek = 3, durationWeeks = 4,
      data = None, generatedByAI = False, status = st, disclaimer = None,
      createdAt = created, updatedAt = created\<rparr>"

definition sampleWorkout :: "string \<Rightarrow> string \<Rightarrow> int \<Rightarrow> int option \<Rightarrow> WorkoutSession" where
  "sampleWorkout wid uid day calories =
     \<lparr>WorkoutSession.id = wid, userId = uid, planId = None, date = day * 86400000,
      duration = Some 45, exercises = None, caloriesBurned = calories, notes' = None,
      completed = True, createdAt = day * 86400000\<rparr>"

definition sampleProgress :: "string \<Rightarrow> string \<Rightarrow> int \<Rightarrow> real option \<Rightarrow> Progress" where
  "sampleProgress rid uid day kg =
     \<lparr>Progress.id = rid, userId = uid, date = day * 86400000, weightKg = kg,
      bodyFatPct = None, measurements = None, photoUrl = None, notes' = None,
      createdAt = day * 86400000\<rparr>"

definition sampleDb :: Database where
  "sampleDb =
     \<lparr>users = [sampleUser],
      plans = [samplePlan ''p1'' ''u1'' ACTIVE 10, samplePlan ''p2'' ''u1'' ACTIVE 30,
               samplePlan ''p3'' ''u1'' PAUSED 40, samplePlan ''p4'' ''u2'' ACTIVE 50,
               samplePlan ''p5'' ''u1'' ACTIVE 20],
      workoutSessions = [sampleWorkout ''w1'' ''u1'' 98 (Some 300),
                         sampleWorkout ''w2'' ''u1'' 99 None,
                         sampleWorkout ''w3'' ''u2'' 99 (Some 250)],
      progress = [sampleProgress ''r1'' ''u1'' 99 (Some 70),
                  sampleProgress ''r2'' ''u1'' 95 None,
                  sampleProgress ''r3'' ''u1'' 94 (Some 71),
                  sampleProgress ''r4'' ''u2'' 96 (Some 80),
                  sampleProgress ''r5'' ''u1'' 10 (Some 75)]\<rparr>"

section \<open>The loops of the fallback generator in closed form\<close>

lemma js_rem_2: "0 \<le> a \<Longrightarrow> js_rem a 2 = a mod 2"
  by (cases "a = 0") (simp_all add: js_rem_def)

lemma days_loop_eq: "days_loop params w d acc = acc @ map (fallbackDay params w) [d..7]"
proof (induction params w d acc rule: days_loop.induct)
  case (1 params w d acc)
  show ?case
  proof (cases "d \<le> 7")
    case True
    then have "[d..7] = d # [d + 1..7]" by (simp add: upto_rec1)
    with True "1" show ?thesis by (subst days_loop.simps) (simp add: fallbackDay_def)
  next
    case False
    then show ?thesis by (subst days_loop.simps) simp
  qed
qed

lemma weeks_loop_eq:
  "weeks_loop params w acc = acc @ map (fallbackWeek params) [w..durationWeeks params]"
proof (induction params w acc rule: weeks_loop.induct)
  case (1 params w acc)
  show ?case
  proof (cases "w \<le> durationWeeks params")
    case True
    then have "[w..durationWeeks params] = w # [w + 1..durationWeeks params]"
      by (simp add: upto_rec1)
    with True "1" show ?thesis
      by (subst weeks_loop.simps) (simp add: fallbackWeek_def days_loop_eq)
  next
    case False
    then show ?thesis by (subst weeks_loop.simps) simp
  qed
qed

lemma fallback_weeks:
  "weeks (data (generateFallbackPlan inherited params)) =
     map (fallbackWeek params) [1..durationWeeks params]"
  by (simp add: generateFallbackPlan_def weeks_loop_eq)

lemma fallback_week_cases:
  assumes "wk \<in> set (weeks (data (generateFallbackPlan inherited params)))"
  obtains w where "1 \<le> w" "w \<le> durationWeeks params" "wk = fallbackWeek params w"
  using assms by (auto simp: fallback_weeks)

lemma fallbackWeek_days: "days (fallbackWeek params w) = map (fallbackDay params w) [1..7]"
  by (simp add: fallbackWeek_def)

lemma fallbackWeek_number: "weekNumber (fallbackWeek params w) = w"
  by (simp add: fallbackWeek_def)

lemma upto_1_7: "[1..7] = [1, 2, 3, 4, 5, 6, 7::int]"
  by (simp add: upto.simps)

lemma active_count:
  assumes "1 \<le> frequencyPerWeek params" "frequencyPerWeek params \<le> 7"
  shows "length (filter (\<lambda>d. restDay d = Some False) (map (fallbackDay params w) [1..7]))
         = nat (frequencyPerWeek params)"
proof -
  have "filter (\<lambda>d. restDay d = Some False) (map (fallbackDay params w) [1..7])
        = map (fallbackDay params w) (filter (\<lambda>d. d \<le> frequencyPerWeek params) [1..7])"
    by (simp add: filter_map comp_def fallbackDay_def)
  moreover have "length (filter (\<lambda>d. d \<le> frequencyPerWeek params) [1..7])
                 = nat (frequencyPerWeek params)"
    using assms by (simp add: upto_1_7) arith
  ultimately show ?thesis by simp
qed

lemma length_fallbackExercises: "length fallbackExercises = 6"
  by (simp add: fallbackExercises_def)

lemma week_slice:
  assumes "1 \<le> w"
  shows "slice0 fallbackExercises (4 + js_rem w 2) = take (if odd w then 5 else 4) fallbackExercises"
proof -
  from assms have "js_rem w 2 = w mod 2" by (simp add: js_rem_2)
  then show ?thesis by (cases "odd w") (simp_all add: slice0_def odd_iff_mod_2_eq_one)
qed

section \<open>Shape of the fallback plan\<close>

text \<open>
  C1. For every valid request (\<open>durationWeeks\<close> in 1..52, \<open>frequencyPerWeek\<close> in
  1..7) the plan has exactly \<open>durationWeeks\<close> weeks, every week has exactly 7 day
  entries, and exactly \<open>frequencyPerWeek\<close> of them have \<open>restDay: false\<close>.
\<close>

theorem fallback_plan_shape:
  assumes "1 \<le> durationWeeks params" "durationWeeks params \<le> 52"
    and "1 \<le> frequencyPerWeek params" "frequencyPerWeek params \<le> 7"
  shows "length (weeks (data (generateFallbackPlan inherited params))) = nat (durationWeeks params)
       \<and> (\<forall>wk \<in> set (weeks (data (generateFallbackPlan inherited params))).
            length (days wk) = 7
          \<and> length (filter (\<lambda>d. restDay d = Some False) (days wk))
              = nat (frequencyPerWeek params))"
proof (intro conjI ballI)
  show "length (weeks (data (generateFallbackPlan inherited params))) = nat (durationWeeks params)"
    by (simp add: fallback_weeks)
next
  fix wk assume "wk \<in> set (weeks (data (generateFallbackPlan inherited params)))"
  then obtain w where wk: "wk = fallbackWeek params w" by (rule fallback_week_cases)
  show "length (days wk) = 7" by (simp add: wk fallbackWeek_days)
  show "length (filter (\<lambda>d. restDay d = Some False) (days wk)) = nat (frequencyPerWeek params)"
    unfolding wk fallbackWeek_days using assms(3,4) by (rule active_count)
qed

lemma sample_weeks:
  "weeks (data (generateFallbackPlan nodeInherited sampleRequest))
     = map (fallbackWeek sampleRequest) [1, 2, 3, 4]"
  by (simp add: fallback_weeks sampleRequest_def upto.simps)

theorem fallback_plan_shape_witness:
  "1 \<le> durationWeeks sampleRequest \<and> durationWeeks sampleRequest \<le> 52
   \<and> 1 \<le> frequencyPerWeek sampleRequest \<and> frequencyPerWeek sampleRequest \<le> 7
   \<and> length (weeks (data (generateFallbackPlan nodeInherited sampleRequest))) = 4
   \<and> fallbackWeek sampleRequest 1 \<in> set (weeks (data (generateFallbackPlan nodeInherited sampleRequest)))
   \<and> length (days (fallbackWeek sampleRequest 1)) = 7
   \<and> length (filter (\<lambda>d. restDay d = Some False) (days (fallbackWeek sampleRequest 1))) = 3"
proof -
  have h: "1 \<le> durationWeeks sampleRequest" "durationWeeks sampleRequest \<le> 52"
    "1 \<le> frequencyPerWeek sampleRequest" "frequencyPerWeek sampleRequest \<le> 7"
    by (simp_all add: sampleRequest_def)
  have m: "fallbackWeek sampleRequest 1 \<in> set (weeks (data (generateFallbackPlan nodeInherited sampleRequest)))"
    by (simp add: sample_weeks)
  have v: "nat (durationWeeks sampleRequest) = 4" "nat (frequencyPerWeek sampleRequest) = 3"
    by (simp_all add: sampleRequest_def)
  from fallback_plan_shape [OF h, of nodeInherited] m v h show ?thesis by auto
qed

lemma fallback_day_cases:
  assumes "d \<in> set (days (fallbackWeek params w))"
  obtains k where "1 \<le> k" "k \<le> 7" "d = fallbackDay params w k"
  using assms by (auto simp: fallbackWeek_days)

lemma fallbackDay_active:
  assumes "restDay (fallbackDay params w k) = Some False"
  shows "fallbackDay params w k =
          \<lparr>dayNumber = k,
           PlanDay.name = (if js_rem k 2 = 1 then ''Full Body Workout A''
                           else ''Full Body Workout B''),
           exercises = slice0 fallbackExercises (4 + js_rem w 2),
           restDay = Some False\<rparr>"
  using assms by (simp add: fallbackDay_def split: if_splits)

lemma sample_week_1:
  "fallbackWeek sampleRequest 1 \<in> set (weeks (data (generateFallbackPlan nodeInherited sampleRequest)))"
  by (simp add: sample_weeks)

lemma sample_week_2:
  "fallbackWeek sampleRequest 2 \<in> set (weeks (data (generateFallbackPlan nodeInherited sampleRequest)))"
  by (simp add: sample_weeks)

lemma sample_day_mem:
  "fallbackDay sampleRequest w 1 \<in> set (days (fallbackWeek sampleRequest w))"
  "fallbackDay sampleRequest w 2 \<in> set (days (fallbackWeek sampleRequest w))"
  by (simp_all add: fallbackWeek_days upto_1_7)

lemma sample_day_active:
  "restDay (fallbackDay sampleRequest w 1) = Some False"
  "restDay (fallbackDay sampleRequest w 2) = Some False"
  by (simp_all add: fallbackDay_def sampleRequest_def)

text \<open>
  C2. Every active day of week \<open>w\<close> carries the first \<open>4 + (w mod 2)\<close> exercises of
  the six-exercise list, clipped to the length of the list: 5 exercises in odd weeks,
  4 in even weeks.
\<close>

theorem fallback_exercise_count:
  "\<forall>wk \<in> set (weeks (data (generateFallbackPlan inherited params))).
     \<forall>d \<in> set (days wk). restDay d = Some False \<longrightarrow>
         exercises d = take (nat (4 + weekNumber wk mod 2)) fallbackExercises
       \<and> length (exercises d) = min (nat (4 + weekNumber wk mod 2)) (length fallbackExercises)
       \<and> length (exercises d) = (if odd (weekNumber wk) then 5 else 4)"
proof (intro ballI impI)
  fix wk d
  assume "wk \<in> set (weeks (data (generateFallbackPlan inherited params)))"
    and d: "d \<in> set (days wk)" and act: "restDay d = Some False"
  then obtain w where w: "1 \<le> w" and wk: "wk = fallbackWeek params w"
    by (auto elim: fallback_week_cases)
  from d wk obtain k where dk: "d = fallbackDay params w k"
    by (auto elim: fallback_day_cases)
  from act dk have ex: "exercises d = slice0 fallbackExercises (4 + js_rem w 2)"
    using fallbackDay_active [of params w k] by simp
  have n: "nat (4 + w mod 2) = (if odd w then 5 else 4)"
    by (cases "odd w") (simp_all add: odd_iff_mod_2_eq_one)
  show "exercises d = take (nat (4 + weekNumber wk mod 2)) fallbackExercises
       \<and> length (exercises d) = min (nat (4 + weekNumber wk mod 2)) (length fallbackExercises)
       \<and> length (exercises d) = (if odd (weekNumber wk) then 5 else 4)"
    using w by (simp add: ex week_slice wk fallbackWeek_number n length_fallbackExercises)
qed

theorem fallback_exercise_count_witness:
  "fallbackWeek sampleRequest 1 \<in> set (weeks (data (generateFallbackPlan nodeInherited sampleRequest)))
   \<and> fallbackDay sampleRequest 1 1 \<in> set (days (fallbackWeek sampleRequest 1))
   \<and> restDay (fallbackDay sampleRequest 1 1) = Some False
   \<and> exercises (fallbackDay sampleRequest 1 1) = take 5 fallbackExercises
   \<and> length (exercises (fallbackDay sampleRequest 1 1)) = 5
   \<and> fallbackWeek sampleRequest 2 \<in> set (weeks (data (generateFallbackPlan nodeInherited sampleRequest)))
   \<and> fallbackDay sampleRequest 2 1 \<in> set (days (fallbackWeek sampleRequest 2))
   \<and> restDay (fallbackDay sampleRequest 2 1) = Some False
   \<and> exercises (fallbackDay sampleRequest 2 1) = take 4 fallbackExercises
   \<and> length (exercises (fallbackDay sampleRequest 2 1)) = 4"
proof -
  note t = fallback_exercise_count [of nodeInherited sampleRequest, rule_format]
  have "exercises (fallbackDay sampleRequest 1 1) = take 5 fallbackExercises
      \<and> length (exercises (fallbackDay sampleRequest 1 1)) = 5"
    using t [OF sample_week_1 sample_day_mem(1) sample_day_active(1)]
    by (simp add: fallbackWeek_number length_fallbackExercises)
  moreover have "exercises (fallbackDay sampleRequest 2 1) = take 4 fallbackExercises
      \<and> length (exercises (fallbackDay sampleRequest 2 1)) = 4"
    using t [OF sample_week_2 sample_day_mem(1) sample_day_active(1)]
    by (simp add: fallbackWeek_number length_fallbackExercises)
  ultimately show ?thesis
    using sample_week_1 sample_week_2 sample_day_mem(1) sample_day_active(1) by blast
qed

text \<open>
  C3. The statement that consecutive active days of a week receive two distinct
  exercise subsets fails: in the plan for the sample request, days 1 and 2 of the first week
  are both active and carry the same exercises.
\<close>

theorem fallback_days_distinct_subsets_counterexample:
  "dayNumber (days (weeks (data (generateFallbackPlan nodeInherited sampleRequest)) ! 0) ! 0) = 1
   \<and> dayNumber (days (weeks (data (generateFallbackPlan nodeInherited sampleRequest)) ! 0) ! 1) = 2
   \<and> restDay (days (weeks (data (generateFallbackPlan nodeInherited sampleRequest)) ! 0) ! 0) = Some False
   \<and> restDay (days (weeks (data (generateFallbackPlan nodeInherited sampleRequest)) ! 0) ! 1) = Some False
   \<and> \<not> (exercises (days (weeks (data (generateFallbackPlan nodeInherited sampleRequest)) ! 0) ! 0)
          \<noteq> exercises (days (weeks (data (generateFallbackPlan nodeInherited sampleRequest)) ! 0) ! 1))"
proof -
  have "days (weeks (data (generateFallbackPlan nodeInherited sampleRequest)) ! 0)
        = map (fallbackDay sampleRequest 1) [1, 2, 3, 4, 5, 6, 7]"
    by (simp add: sample_weeks fallbackWeek_days upto_1_7)
  then show ?thesis
    by (simp add: fallbackDay_def sampleRequest_def)
qed

text \<open>
  C3, amended. Within a week the active days alternate in name only (workout A on
  odd day numbers, workout B on even ones); all active days of one week carry the
  same exercises, the first 5 of the list in odd weeks and the first 4 in even weeks,
  so the two subsets alternate from week to week.
\<close>

theorem fallback_days_alternate_in_name:
  "\<forall>wk \<in> set (weeks (data (generateFallbackPlan inherited params))).
     \<forall>d \<in> set (days wk). restDay d = Some False \<longrightarrow>
         PlanDay.name d = (if odd (dayNumber d) then ''Full Body Workout A''
                           else ''Full Body Workout B'')
       \<and> exercises d = take (if odd (weekNumber wk) then 5 else 4) fallbackExercises
       \<and> (\<forall>d' \<in> set (days wk). restDay d' = Some False \<longrightarrow> exercises d' = exercises d)"
proof (intro ballI impI)
  fix wk d
  assume "wk \<in> set (weeks (data (generateFallbackPlan inherited params)))"
    and d: "d \<in> set (days wk)" and act: "restDay d = Some False"
  then obtain w where w: "1 \<le> w" and wk: "wk = fallbackWeek params w"
    by (auto elim: fallback_week_cases)
  have same: "exercises e = slice0 fallbackExercises (4 + js_rem w 2)"
    if "e \<in> set (days wk)" "restDay e = Some False" for e
  proof -
    from that(1) wk obtain j where "e = fallbackDay params w j"
      by (auto elim: fallback_day_cases)
    with that(2) show ?thesis using fallbackDay_active [of params w j] by simp
  qed
  from d wk obtain k where k: "1 \<le> k" and dk: "d = fallbackDay params w k"
    by (auto elim: fallback_day_cases)
  from k have "js_rem k 2 = k mod 2" by (simp add: js_rem_2)
  then have nm: "(js_rem k 2 = 1) = odd k" by (simp add: odd_iff_mod_2_eq_one)
  from act dk have fields: "dayNumber d = k"
    "PlanDay.name d = (if js_rem k 2 = 1 then ''Full Body Workout A'' else ''Full Body Workout B'')"
    using fallbackDay_active [of params w k] by simp_all
  show "PlanDay.name d = (if odd (dayNumber d) then ''Full Body Workout A''
                           else ''Full Body Workout B'')
       \<and> exercises d = take (if odd (weekNumber wk) then 5 else 4) fallbackExercises
       \<and> (\<forall>d' \<in> set (days wk). restDay d' = Some False \<longrightarrow> exercises d' = exercises d)"
  proof (intro conjI ballI impI)
    show "PlanDay.name d = (if odd (dayNumber d) then ''Full Body Workout A''
                           else ''Full Body Workout B'')"
      by (simp only: fields nm)
    show "exercises d = take (if odd (weekNumber wk) then 5 else 4) fallbackExercises"
      using same [OF d act] week_slice [OF w] by (simp add: wk fallbackWeek_number)
    show "exercises d' = exercises d" if "d' \<in> set (days wk)" "restDay d' = Some False" for d'
      using same [OF that] same [OF d act] by simp
  qed
qed

theorem fallback_days_alternate_in_name_witness:
  "fallbackWeek sampleRequest 1 \<in> set (weeks (data (generateFallbackPlan nodeInherited sampleRequest)))
   \<and> fallbackDay sampleRequest 1 1 \<in> set (days (fallbackWeek sampleRequest 1))
   \<and> fallbackDay sampleRequest 1 2 \<in> set (days (fallbackWeek sampleRequest 1))
   \<and> restDay (fallbackDay sampleRequest 1 1) = Some False
   \<and> restDay (fallbackDay sampleRequest 1 2) = Some False
   \<and> PlanDay.name (fallbackDay sampleRequest 1 1) = ''Full Body Workout A''
   \<and> PlanDay.name (fallbackDay sampleRequest 1 2) = ''Full Body Workout B''
   \<and> exercises (fallbackDay sampleRequest 1 1) = take 5 fallbackExercises
   \<and> exercises (fallbackDay sampleRequest 1 2) = exercises (fallbackDay sampleRequest 1 1)"
proof -
  note t = fallback_days_alternate_in_name [of nodeInherited sampleRequest, rule_format]
  have n: "dayNumber (fallbackDay sampleRequest 1 1) = 1" "dayNumber (fallbackDay sampleRequest 1 2) = 2"
    by (simp_all add: fallbackDay_def)
  have a: "PlanDay.name (fallbackDay sampleRequest 1 1) = ''Full Body Workout A''
      \<and> exercises (fallbackDay sampleRequest 1 1) = take 5 fallbackExercises"
    using t [OF sample_week_1 sample_day_mem(1) sample_day_active(1)]
    by (simp add: fallbackWeek_number n)
  have b: "PlanDay.name (fallbackDay sampleRequest 1 2) = ''Full Body Workout B''"
    using t [OF sample_week_1 sample_day_mem(2) sample_day_active(2)]
    by (simp add: n)
  have c: "exercises (fallbackDay sampleRequest 1 2) = exercises (fallbackDay sampleRequest 1 1)"
    using t [OF sample_week_1 sample_day_mem(1) sample_day_active(1)]
      sample_day_mem(2) sample_day_active(2) by blast
  from a b c show ?thesis
    using sample_week_1 sample_day_mem sample_day_active by blast
qed

section \<open>Title and description of the fallback plan\<close>

lemma goalNames_nonempty: "map_of goalNames key = Some v \<Longrightarrow> v \<noteq> []"
  by (auto simp: goalNames_def split: if_splits)

lemma goalName_table:
  assumes "map_of goalNames key = None \<Longrightarrow> inherited key = None"
  shows "goalName inherited key = (case map_of goalNames key of Some v \<Rightarrow> v | None \<Rightarrow> ''Fitness'')"
  using assms by (auto simp: goalName_def dest: goalNames_nonempty split: option.splits)

lemma sample_title: "numStr 4 = ''4''" "numStr 3 = ''3''"
  by (simp_all add: numStr_def digits.simps)

lemma lower_beginner: "toLowerCase ''BEGINNER'' = ''beginner''"
  by (simp add: toLowerCase_def toLowerChar_def)

lemma replace_samples:
  "replace ''_'' '' '' ''weight_loss'' = ''weight loss''"
  "replace ''_'' '' '' ''yoga'' = ''yoga''"
  "replace ''_'' '' '' ''cardio'' = ''cardio''"
  by (simp_all add: replace.simps)

text \<open>
  C8. The statement that title and description are both derived from the goal-name
  table fails for the description: two goals outside the table get the same name
  \<open>Fitness\<close> but different descriptions, and the description of a
  \<open>weight_loss\<close> plan reads "weight loss", not "Fat Burn". For the title, a
  goal such as \<open>constructor\<close> is not in the table and still does not get the
  name \<open>Fitness\<close>, since the lookup finds the property the table object inherits.
\<close>

theorem fallback_description_from_table_counterexample:
  "goalName nodeInherited ''yoga'' = goalName nodeInherited ''cardio''
   \<and> description (generateFallbackPlan nodeInherited (sampleRequest\<lparr>goal := ''yoga''\<rparr>))
       \<noteq> description (generateFallbackPlan nodeInherited (sampleRequest\<lparr>goal := ''cardio''\<rparr>))
   \<and> goalName nodeInherited ''weight_loss'' = ''Fat Burn''
   \<and> description (generateFallbackPlan nodeInherited sampleRequest)
       = ''A beginner 4-week program focusing on weight loss. Train 3 days per week.''
   \<and> map_of goalNames ''constructor'' = None
   \<and> title (generateFallbackPlan nodeInherited (sampleRequest\<lparr>goal := ''constructor''\<rparr>))
       = ''function Object() { [native code] } 4-Week Plan''"
proof (intro conjI)
  show "map_of goalNames ''constructor'' = None"
    by (simp add: goalNames_def)
  show "title (generateFallbackPlan nodeInherited (sampleRequest\<lparr>goal := ''constructor''\<rparr>))
       = ''function Object() { [native code] } 4-Week Plan''"
    by (simp add: generateFallbackPlan_def goalName_def goalNames_def nodeInherited_def
        sampleRequest_def sample_title)
  show "goalName nodeInherited ''yoga'' = goalName nodeInherited ''cardio''"
    by (simp add: goalName_def goalNames_def nodeInherited_def)
  show "description (generateFallbackPlan nodeInherited (sampleRequest\<lparr>goal := ''yoga''\<rparr>))
       \<noteq> description (generateFallbackPlan nodeInherited (sampleRequest\<lparr>goal := ''cardio''\<rparr>))"
    by (simp add: generateFallbackPlan_def sampleRequest_def replace_samples)
  show "goalName nodeInherited ''weight_loss'' = ''Fat Burn''"
    by (simp add: goalName_def goalNames_def)
  show "description (generateFallbackPlan nodeInherited sampleRequest)
       = ''A beginner 4-week program focusing on weight loss. Train 3 days per week.''"
    by (simp add: generateFallbackPlan_def sampleRequest_def replace_samples sample_title
        lower_beginner)
qed

text \<open>
  C8, amended. The title is the name the table gives the goal, or \<open>Fitness\<close> when
  the goal is not in the table, followed by the number of weeks and \<open>-Week Plan\<close>;
  this for every goal that is not the name of a property a plain object inherits.
  The description does not use the table: it is built from the lower-cased level,
  the number of weeks, the goal string itself with its first underscore replaced by
  a space, and the frequency.
\<close>

theorem fallback_title_description:
  assumes "map_of goalNames (goal params) = None \<Longrightarrow> inherited (goal params) = None"
  shows "title (generateFallbackPlan inherited params)
           = (case map_of goalNames (goal params) of Some v \<Rightarrow> v | None \<Rightarrow> ''Fitness'')
             @ '' '' @ numStr (durationWeeks params) @ ''-Week Plan''
       \<and> description (generateFallbackPlan inherited params)
           = ''A '' @ toLowerCase (level_string (level params)) @ '' ''
             @ numStr (durationWeeks params) @ ''-week program focusing on ''
             @ replace ''_'' '' '' (goal params) @ ''. Train ''
             @ numStr (frequencyPerWeek params) @ '' days per week.''"
  using goalName_table [of "goal params" inherited] assms
  by (simp add: generateFallbackPlan_def)

theorem fallback_title_description_witness:
  "map_of goalNames (goal (sampleRequest\<lparr>goal := ''yoga''\<rparr>)) = None
   \<and> nodeInherited (goal (sampleRequest\<lparr>goal := ''yoga''\<rparr>)) = None
   \<and> title (generateFallbackPlan nodeInherited (sampleRequest\<lparr>goal := ''yoga''\<rparr>))
       = ''Fitness 4-Week Plan''
   \<and> description (generateFallbackPlan nodeInherited (sampleRequest\<lparr>goal := ''yoga''\<rparr>))
       = ''A beginner 4-week program focusing on yoga. Train 3 days per week.''
   \<and> title (generateFallbackPlan nodeInherited sampleRequest) = ''Fat Burn 4-Week Plan''"
proof -
  have h: "nodeInherited (goal (sampleRequest\<lparr>goal := ''yoga''\<rparr>)) = None"
    by (simp add: nodeInherited_def)
  have g: "map_of goalNames ''yoga'' = None" "map_of goalNames ''weight_loss'' = Some ''Fat Burn''"
    by (simp_all add: goalNames_def)
  have "title (generateFallbackPlan nodeInherited (sampleRequest\<lparr>goal := ''yoga''\<rparr>))
       = ''Fitness 4-Week Plan''
   \<and> description (generateFallbackPlan nodeInherited (sampleRequest\<lparr>goal := ''yoga''\<rparr>))
       = ''A beginner 4-week program focusing on yoga. Train 3 days per week.''"
    using fallback_title_description [of "sampleRequest\<lparr>goal := ''yoga''\<rparr>" nodeInherited, OF h]
    by (simp add: g sampleRequest_def replace_samples sample_title lower_beginner)
  moreover have "title (generateFallbackPlan nodeInherited sampleRequest) = ''Fat Burn 4-Week Plan''"
    using fallback_title_description [of sampleRequest nodeInherited]
    by (simp add: g sampleRequest_def sample_title)
  ultimately show ?thesis using h g by (simp add: sampleRequest_def)
qed

section \<open>The sample token library at work\<close>

lemma digits_samples: "digits 1000 = ''1000''" "digits 605800 = ''605800''"
  by (simp_all add: digits.simps)

lemma natOfDigits_samples: "natOfDigits ''1000'' = Some 1000" "natOfDigits ''605800'' = Some 605800"
  by (simp_all add: natOfDigits_def digitVal_def)

lemma sample_issue: "generateToken (jwt_sign sampleJwt 1000) None sampleUser = sampleToken"
  by (simp add: generateToken_def jwt_sign_def sampleJwt_def sampleUser_def sampleToken_def
      JWT_SECRET_def expiresIn_7d_def digits_samples)

lemma sample_signature:
  "signature sampleJwt (JWT_SECRET None) samplePayload
     = ''fitstack-secret-key/u1/ann@example.org/USER/1000/605800''"
  by (simp add: sampleJwt_def JWT_SECRET_def samplePayload_def digits_samples)

lemma sample_decode:
  "decode sampleJwt sampleToken
     = Some (samplePayload, ''fitstack-secret-key/u1/ann@example.org/USER/1000/605800'')"
  by (simp add: sampleJwt_def sampleToken_def samplePayload_def natOfDigits_samples)

lemma tampered_decode:
  "decode sampleJwt tamperedToken
     = Some (samplePayload\<lparr>JwtPayload.role := ''ADMIN''\<rparr>,
             ''fitstack-secret-key/u1/ann@example.org/USER/1000/605800'')"
  by (simp add: sampleJwt_def tamperedToken_def samplePayload_def natOfDigits_samples)

lemma malformed_decode: "decode sampleJwt malformedToken = None"
  by (simp add: sampleJwt_def malformedToken_def)


lemma bearer_authorization:
  "take 7 (''Bearer '' @ token) = ''Bearer ''" "drop 7 (''Bearer '' @ token) = token"
  by simp_all

lemma requireAuth_rejects:
  assumes "verifyToken verify env token = None"
  shows "requireAuth verify env (req\<lparr>authorization := Some (''Bearer '' @ token)\<rparr>)
           = Responded 401 ''Invalid or expired token''"
  using assms by (simp add: requireAuth_def)

lemma verifyToken_cases:
  "verifyToken verify env token =
     (case verify token (JWT_SECRET env) of Inl thrown \<Rightarrow> None | Inr decoded \<Rightarrow> Some decoded)"
  by (simp add: verifyToken_def split: sum.splits)

lemma jwt_verify_malformed:
  "decode lib token = None \<Longrightarrow> jwt_verify lib now token secret = Inl Malformed"
  by (simp add: jwt_verify_def)

lemma jwt_verify_bad_signature:
  "decode lib token = Some (p, s) \<Longrightarrow> s \<noteq> signature lib secret p
     \<Longrightarrow> jwt_verify lib now token secret = Inl BadSignature"
  by (simp add: jwt_verify_def)

lemma jwt_verify_expired:
  "decode lib token = Some (p, signature lib secret p) \<Longrightarrow> exp p \<le> now
     \<Longrightarrow> jwt_verify lib now token secret = Inl Expired"
  by (simp add: jwt_verify_def)

lemma jwt_verify_ok:
  "decode lib token = Some (p, signature lib secret p) \<Longrightarrow> now < exp p
     \<Longrightarrow> jwt_verify lib now token secret = Inr p"
  by (simp add: jwt_verify_def)

lemma generateToken_jwt:
  "generateToken (jwt_sign lib issued) env u
     = encode lib (issuedPayload issued u)
         (signature lib (JWT_SECRET env) (issuedPayload issued u))"
  by (simp add: generateToken_def jwt_sign_def issuedPayload_def Let_def)

section \<open>Tokens\<close>

text \<open>
  C4. A token issued for a user at time \<open>issued\<close> and verified under the same
  secret before its expiry, seven days later, yields the id, email and role of the
  user. From the expiry on, \<open>verifyToken\<close> returns \<open>null\<close> for it, and so it does
  for every token that does not decode or whose signature is not the signature of
  its payload under the secret; \<open>requireAuth\<close> answers those with 401. The
  hypothesis is that the library reads the issued token back as it wrote it.
\<close>

theorem token_round_trip:
  assumes "decode lib (encode lib (issuedPayload issued u)
                        (signature lib (JWT_SECRET env) (issuedPayload issued u)))
           = Some (issuedPayload issued u,
                   signature lib (JWT_SECRET env) (issuedPayload issued u))"
  shows "(now < issued + expiresIn_7d \<longrightarrow>
            map_option (\<lambda>d. (JwtPayload.id d, JwtPayload.email d, JwtPayload.role d))
              (verifyToken (jwt_verify lib now) env (generateToken (jwt_sign lib issued) env u))
            = Some (User.id u, User.email u, role_string (User.role u)))
       \<and> (issued + expiresIn_7d \<le> now \<longrightarrow>
            verifyToken (jwt_verify lib now) env (generateToken (jwt_sign lib issued) env u) = None
          \<and> requireAuth (jwt_verify lib now) env
               (req\<lparr>authorization := Some (''Bearer '' @ generateToken (jwt_sign lib issued) env u)\<rparr>)
              = Responded 401 ''Invalid or expired token'')
       \<and> (\<forall>token. decode lib token = None
                  \<or> (\<exists>p s. decode lib token = Some (p, s) \<and> s \<noteq> signature lib (JWT_SECRET env) p)
            \<longrightarrow> verifyToken (jwt_verify lib now) env token = None
              \<and> requireAuth (jwt_verify lib now) env
                   (req\<lparr>authorization := Some (''Bearer '' @ token)\<rparr>)
                  = Responded 401 ''Invalid or expired token'')"
proof (intro conjI impI allI)
  let ?tok = "generateToken (jwt_sign lib issued) env u"
  have dec: "decode lib ?tok = Some (issuedPayload issued u,
                signature lib (JWT_SECRET env) (issuedPayload issued u))"
    using assms by (simp only: generateToken_jwt)
  have e: "exp (issuedPayload issued u) = issued + expiresIn_7d"
    by (simp add: issuedPayload_def)
  {
    assume "now < issued + expiresIn_7d"
    with dec e have "jwt_verify lib now ?tok (JWT_SECRET env) = Inr (issuedPayload issued u)"
      by (simp add: jwt_verify_ok)
    then show "map_option (\<lambda>d. (JwtPayload.id d, JwtPayload.email d, JwtPayload.role d))
              (verifyToken (jwt_verify lib now) env ?tok)
            = Some (User.id u, User.email u, role_string (User.role u))"
      by (simp add: verifyToken_cases issuedPayload_def)
  }
  {
    assume "issued + expiresIn_7d \<le> now"
    with dec e have "jwt_verify lib now ?tok (JWT_SECRET env) = Inl Expired"
      by (simp add: jwt_verify_expired)
    then show none: "verifyToken (jwt_verify lib now) env ?tok = None"
      by (simp add: verifyToken_cases)
    then show "requireAuth (jwt_verify lib now) env (req\<lparr>authorization := Some (''Bearer '' @ ?tok)\<rparr>)
              = Responded 401 ''Invalid or expired token''"
      by (rule requireAuth_rejects)
  }
  {
    fix token
    assume "decode lib token = None
          \<or> (\<exists>p s. decode lib token = Some (p, s) \<and> s \<noteq> signature lib (JWT_SECRET env) p)"
    then have "\<exists>thrown. jwt_verify lib now token (JWT_SECRET env) = Inl thrown"
      by (auto simp: jwt_verify_malformed jwt_verify_bad_signature)
    then show none: "verifyToken (jwt_verify lib now) env token = None"
      by (auto simp: verifyToken_cases)
    then show "requireAuth (jwt_verify lib now) env (req\<lparr>authorization := Some (''Bearer '' @ token)\<rparr>)
              = Responded 401 ''Invalid or expired token''"
      by (rule requireAuth_rejects)
  }
qed


lemma sample_issued: "issuedPayload 1000 sampleUser = samplePayload"
  by (simp add: issuedPayload_def sampleUser_def samplePayload_def expiresIn_7d_def)

lemma sample_codec:
  "decode sampleJwt (encode sampleJwt (issuedPayload 1000 sampleUser)
       (signature sampleJwt (JWT_SECRET None) (issuedPayload 1000 sampleUser)))
   = Some (issuedPayload 1000 sampleUser,
           signature sampleJwt (JWT_SECRET None) (issuedPayload 1000 sampleUser))"
proof -
  have "encode sampleJwt samplePayload (signature sampleJwt (JWT_SECRET None) samplePayload)
        = sampleToken"
    by (simp add: sampleJwt_def samplePayload_def sampleToken_def JWT_SECRET_def digits_samples)
  then show ?thesis
    by (simp add: sample_issued sample_decode sample_signature)
qed

lemma tampered_signature:
  "signature sampleJwt (JWT_SECRET None) (samplePayload\<lparr>JwtPayload.role := ''ADMIN''\<rparr>)
     \<noteq> ''fitstack-secret-key/u1/ann@example.org/USER/1000/605800''"
  by (simp add: sampleJwt_def JWT_SECRET_def samplePayload_def digits_samples)

theorem token_round_trip_witness:
  "map_option (\<lambda>d. (JwtPayload.id d, JwtPayload.email d, JwtPayload.role d))
      (verifyToken (jwt_verify sampleJwt 2000) None
         (generateToken (jwt_sign sampleJwt 1000) None sampleUser))
     = Some (''u1'', ''ann@example.org'', ''USER'')
   \<and> verifyToken (jwt_verify sampleJwt 605800) None
         (generateToken (jwt_sign sampleJwt 1000) None sampleUser) = None
   \<and> requireAuth (jwt_verify sampleJwt 605800) None
         (bearer (generateToken (jwt_sign sampleJwt 1000) None sampleUser))
       = Responded 401 ''Invalid or expired token''
   \<and> verifyToken (jwt_verify sampleJwt 2000) None tamperedToken = None
   \<and> requireAuth (jwt_verify sampleJwt 2000) None (bearer tamperedToken)
       = Responded 401 ''Invalid or expired token''
   \<and> verifyToken (jwt_verify sampleJwt 2000) None malformedToken = None
   \<and> requireAuth (jwt_verify sampleJwt 2000) None (bearer malformedToken)
       = Responded 401 ''Invalid or expired token''"
proof -
  note t = token_round_trip [OF sample_codec]
  have b: "bearer token = \<lparr>authorization = None, user = None\<rparr>\<lparr>authorization := Some (''Bearer '' @ token)\<rparr>"
    for token
    by (simp add: bearer_def)
  have fresh: "(2000::nat) < 1000 + expiresIn_7d" and old: "(1000::nat) + expiresIn_7d \<le> 605800"
    by (simp_all add: expiresIn_7d_def)
  have bad: "\<exists>p s. decode sampleJwt tamperedToken = Some (p, s)
                 \<and> s \<noteq> signature sampleJwt (JWT_SECRET None) p"
    using tampered_decode tampered_signature by auto
  have u: "User.id sampleUser = ''u1''" "User.email sampleUser = ''ann@example.org''"
    "role_string (User.role sampleUser) = ''USER''"
    by (simp_all add: sampleUser_def)
  have r1: "map_option (\<lambda>d. (JwtPayload.id d, JwtPayload.email d, JwtPayload.role d))
      (verifyToken (jwt_verify sampleJwt 2000) None
         (generateToken (jwt_sign sampleJwt 1000) None sampleUser))
     = Some (''u1'', ''ann@example.org'', ''USER'')"
    using t [of 2000 "\<lparr>authorization = None, user = None\<rparr>", THEN conjunct1, rule_format, OF fresh]
    by (simp only: u)
  have r2: "verifyToken (jwt_verify sampleJwt 605800) None
         (generateToken (jwt_sign sampleJwt 1000) None sampleUser) = None
   \<and> requireAuth (jwt_verify sampleJwt 605800) None
         (bearer (generateToken (jwt_sign sampleJwt 1000) None sampleUser))
       = Responded 401 ''Invalid or expired token''"
    using t [of 605800 "\<lparr>authorization = None, user = None\<rparr>", THEN conjunct2, THEN conjunct1, rule_format, OF old]
    by (simp only: b)
  note r3 = t [of 2000 "\<lparr>authorization = None, user = None\<rparr>", THEN conjunct2, THEN conjunct2, rule_format]
  have r4: "verifyToken (jwt_verify sampleJwt 2000) None tamperedToken = None
   \<and> requireAuth (jwt_verify sampleJwt 2000) None (bearer tamperedToken)
       = Responded 401 ''Invalid or expired token''"
    using r3 [of tamperedToken, OF disjI2, OF bad] by (simp only: b)
  have r5: "verifyToken (jwt_verify sampleJwt 2000) None malformedToken = None
   \<and> requireAuth (jwt_verify sampleJwt 2000) None (bearer malformedToken)
       = Responded 401 ''Invalid or expired token''"
    using r3 [of malformedToken, OF disjI1, OF malformed_decode] by (simp only: b)
  show ?thesis
    by (simp only: r1 r2 r4 r5 simp_thms)
qed

text \<open>
  C5. Whatever \<open>jwt.verify\<close> throws, \<open>verifyToken\<close> returns \<open>null\<close>; it returns the
  decoded payload when \<open>jwt.verify\<close> returns one. Its result carries no trace of the
  cause: two tokens that fail, for whatever reasons, give the same result. Being a
  function into an option, it has no other outcome, so it does not throw.
\<close>

theorem verifyToken_null_on_failure:
  "(\<forall>thrown. verify token (JWT_SECRET env) = Inl thrown
       \<longrightarrow> verifyToken verify env token = None)
   \<and> (\<forall>decoded. verify token (JWT_SECRET env) = Inr decoded
       \<longrightarrow> verifyToken verify env token = Some decoded)
   \<and> (\<forall>token' thrown thrown'.
         verify token (JWT_SECRET env) = Inl thrown \<and> verify token' (JWT_SECRET env) = Inl thrown'
       \<longrightarrow> verifyToken verify env token = verifyToken verify env token')"
  by (simp add: verifyToken_cases)

theorem verifyToken_null_on_failure_witness:
  "jwt_verify sampleJwt 605800 sampleToken (JWT_SECRET None) = Inl Expired
   \<and> verifyToken (jwt_verify sampleJwt 605800) None sampleToken = None
   \<and> jwt_verify sampleJwt 2000 tamperedToken (JWT_SECRET None) = Inl BadSignature
   \<and> verifyToken (jwt_verify sampleJwt 2000) None tamperedToken = None
   \<and> jwt_verify sampleJwt 2000 malformedToken (JWT_SECRET None) = Inl Malformed
   \<and> verifyToken (jwt_verify sampleJwt 2000) None malformedToken = None
   \<and> jwt_verify sampleJwt 2000 sampleToken (JWT_SECRET None) = Inr samplePayload
   \<and> verifyToken (jwt_verify sampleJwt 2000) None sampleToken = Some samplePayload"
proof -
  have d: "decode sampleJwt sampleToken
           = Some (samplePayload, signature sampleJwt (JWT_SECRET None) samplePayload)"
    by (simp add: sample_decode sample_signature)
  have x: "exp samplePayload = 605800" by (simp add: samplePayload_def)
  have expired: "jwt_verify sampleJwt 605800 sampleToken (JWT_SECRET None) = Inl Expired"
    using d x by (simp add: jwt_verify_expired)
  have tampered: "jwt_verify sampleJwt 2000 tamperedToken (JWT_SECRET None) = Inl BadSignature"
    using tampered_decode tampered_signature by (simp add: jwt_verify_bad_signature)
  have malformed: "jwt_verify sampleJwt 2000 malformedToken (JWT_SECRET None) = Inl Malformed"
    using malformed_decode by (simp add: jwt_verify_malformed)
  have ok: "jwt_verify sampleJwt 2000 sampleToken (JWT_SECRET None) = Inr samplePayload"
    using d x by (simp add: jwt_verify_ok)
  have r1: "verifyToken (jwt_verify sampleJwt 605800) None sampleToken = None"
    using verifyToken_null_on_failure [of "jwt_verify sampleJwt 605800" sampleToken None,
        THEN conjunct1, rule_format, OF expired] .
  have r2: "verifyToken (jwt_verify sampleJwt 2000) None tamperedToken = None"
    using verifyToken_null_on_failure [of "jwt_verify sampleJwt 2000" tamperedToken None,
        THEN conjunct1, rule_format, OF tampered] .
  have r3: "verifyToken (jwt_verify sampleJwt 2000) None malformedToken = None"
    using verifyToken_null_on_failure [of "jwt_verify sampleJwt 2000" malformedToken None,
        THEN conjunct1, rule_format, OF malformed] .
  have r4: "verifyToken (jwt_verify sampleJwt 2000) None sampleToken = Some samplePayload"
    using verifyToken_null_on_failure [of "jwt_verify sampleJwt 2000" sampleToken None,
        THEN conjunct2, THEN conjunct1, rule_format, OF ok] .
  show ?thesis
    by (simp only: expired tampered malformed ok r1 r2 r3 r4 simp_thms)
qed

section \<open>Statistics\<close>

text \<open>
  C7. Whatever the database holds, the streak of a user's statistics and the average
  workouts per week of the admin statistics are zero.
\<close>

theorem stats_hardcoded_zero:
  "streak (getUserStats lib now db userId') = 0
   \<and> averageWorkoutsPerWeek (getAdminStats db) = 0"
  by (simp add: getUserStats_def getAdminStats_def Let_def)

lemma sample_user_workouts:
  "filter (\<lambda>s. WorkoutSession.userId s = ''u1'') (workoutSessions sampleDb)
     = [sampleWorkout ''w1'' ''u1'' 98 (Some 300), sampleWorkout ''w2'' ''u1'' 99 None]"
  by (simp add: sampleDb_def sampleWorkout_def)

theorem stats_hardcoded_zero_witness:
  "UserStats.totalWorkouts (getUserStats sampleDates sampleNow sampleDb ''u1'') = 2
   \<and> caloriesBurned (getUserStats sampleDates sampleNow sampleDb ''u1'') = 300
   \<and> streak (getUserStats sampleDates sampleNow sampleDb ''u1'') = 0
   \<and> AdminStats.totalWorkouts (getAdminStats sampleDb) = 3
   \<and> averageWorkoutsPerWeek (getAdminStats sampleDb) = 0"
proof -
  have "UserStats.totalWorkouts (getUserStats sampleDates sampleNow sampleDb ''u1'') = 2"
    by (simp add: getUserStats_def Let_def sample_user_workouts countOr0_def)
  moreover have "caloriesBurned (getUserStats sampleDates sampleNow sampleDb ''u1'') = 300"
    by (simp add: getUserStats_def Let_def sample_user_workouts List.map_filter_def
        sampleWorkout_def)
  moreover have "AdminStats.totalWorkouts (getAdminStats sampleDb) = 3"
    by (simp add: getAdminStats_def countOr0_def sampleDb_def)
  ultimately show ?thesis
    using stats_hardcoded_zero [of sampleDates sampleNow sampleDb "''u1''"] by simp
qed


section \<open>Queries\<close>

lemma firstRow_take_1: "firstRow (take 1 rows) = firstRow rows"
  by (cases rows) (simp_all add: firstRow_def)

lemma firstRow_None: "firstRow rows = None \<longleftrightarrow> rows = []"
  by (cases rows) (simp_all add: firstRow_def)

lemma firstRow_Some: "firstRow rows = Some row \<Longrightarrow> \<exists>others. rows = row # others"
  by (cases rows) (simp_all add: firstRow_def)

lemma orderByDesc_set: "set (orderByDesc column rows) = set rows"
  by (simp add: orderByDesc_def)

lemma orderByDesc_first:
  assumes "orderByDesc column rows = row # others" and "r \<in> set rows"
  shows "column r \<le> column row"
proof -
  have "sorted (map (\<lambda>r. - column r) (orderByDesc column rows))"
    by (simp add: orderByDesc_def)
  with assms(1) have "\<forall>x \<in> set others. - column row \<le> - column x" by simp
  moreover from assms have "r = row \<or> r \<in> set others"
    using orderByDesc_set [of column rows] by auto
  ultimately show ?thesis by auto
qed

text \<open>
  C9. \<open>getActivePlanByUserId\<close> returns \<open>undefined\<close> exactly when the user has no
  active plan. A plan it returns is a stored plan of that user with status
  \<open>ACTIVE\<close>, and no active plan of the user was created later.
\<close>

theorem active_plan_most_recent:
  "(case getActivePlanByUserId db userId' of
      None \<Rightarrow> \<not> (\<exists>p \<in> set (plans db). Plan.userId p = userId' \<and> Plan.status p = ACTIVE)
    | Some plan \<Rightarrow>
        plan \<in> set (plans db) \<and> Plan.userId plan = userId' \<and> Plan.status plan = ACTIVE
        \<and> (\<forall>p \<in> set (plans db). Plan.userId p = userId' \<and> Plan.status p = ACTIVE
              \<longrightarrow> Plan.createdAt p \<le> Plan.createdAt plan))"
proof (cases "getActivePlanByUserId db userId'")
  case None
  then have "orderByDesc Plan.createdAt
      (filter (\<lambda>p. Plan.userId p = userId' \<and> Plan.status p = ACTIVE) (plans db)) = []"
    unfolding getActivePlanByUserId_def firstRow_take_1 by (simp add: firstRow_None)
  then have "set (filter (\<lambda>p. Plan.userId p = userId' \<and> Plan.status p = ACTIVE) (plans db)) = {}"
    using orderByDesc_set [of Plan.createdAt
        "filter (\<lambda>p. Plan.userId p = userId' \<and> Plan.status p = ACTIVE) (plans db)"]
    by simp
  with None show ?thesis by auto
next
  case (Some plan)
  let ?active = "filter (\<lambda>p. Plan.userId p = userId' \<and> Plan.status p = ACTIVE) (plans db)"
  from Some obtain others where first: "orderByDesc Plan.createdAt ?active = plan # others"
    unfolding getActivePlanByUserId_def firstRow_take_1 by (auto dest: firstRow_Some)
  then have "plan \<in> set ?active"
    using orderByDesc_set [of Plan.createdAt ?active] by auto
  moreover have "Plan.createdAt p \<le> Plan.createdAt plan" if "p \<in> set ?active" for p
    using first that by (rule orderByDesc_first)
  ultimately show ?thesis using Some by auto
qed

lemma sample_active_plan:
  "getActivePlanByUserId sampleDb ''u1'' = Some (samplePlan ''p2'' ''u1'' ACTIVE 30)"
  by (simp add: getActivePlanByUserId_def orderByDesc_def firstRow_def sampleDb_def
      samplePlan_def)

lemma sample_no_active_plan: "getActivePlanByUserId sampleDb ''u3'' = None"
  by (simp add: getActivePlanByUserId_def orderByDesc_def firstRow_def sampleDb_def
      samplePlan_def)

theorem active_plan_most_recent_witness:
  "getActivePlanByUserId sampleDb ''u1'' = Some (samplePlan ''p2'' ''u1'' ACTIVE 30)
   \<and> samplePlan ''p2'' ''u1'' ACTIVE 30 \<in> set (plans sampleDb)
   \<and> samplePlan ''p5'' ''u1'' ACTIVE 20 \<in> set (plans sampleDb)
   \<and> Plan.createdAt (samplePlan ''p5'' ''u1'' ACTIVE 20)
        \<le> Plan.createdAt (samplePlan ''p2'' ''u1'' ACTIVE 30)
   \<and> getActivePlanByUserId sampleDb ''u3'' = None
   \<and> \<not> (\<exists>p \<in> set (plans sampleDb). Plan.userId p = ''u3'' \<and> Plan.status p = ACTIVE)"
proof -
  have m: "samplePlan ''p5'' ''u1'' ACTIVE 20 \<in> set (plans sampleDb)"
    by (simp add: sampleDb_def)
  have f: "Plan.userId (samplePlan ''p5'' ''u1'' ACTIVE 20) = ''u1''"
    "Plan.status (samplePlan ''p5'' ''u1'' ACTIVE 20) = ACTIVE"
    by (simp_all add: samplePlan_def)
  have a: "samplePlan ''p2'' ''u1'' ACTIVE 30 \<in> set (plans sampleDb)
      \<and> Plan.createdAt (samplePlan ''p5'' ''u1'' ACTIVE 20)
           \<le> Plan.createdAt (samplePlan ''p2'' ''u1'' ACTIVE 30)"
    using active_plan_most_recent [of sampleDb "''u1''"] m f
    by (simp only: sample_active_plan option.case)
  have b: "\<not> (\<exists>p \<in> set (plans sampleDb). Plan.userId p = ''u3'' \<and> Plan.status p = ACTIVE)"
    using active_plan_most_recent [of sampleDb "''u3''"]
    by (simp only: sample_no_active_plan option.case simp_thms)
  show ?thesis
    by (simp only: sample_active_plan sample_no_active_plan a b m simp_thms)
qed

lemma getProgressChart_rows:
  "getProgressChart lib now db userId' days_back
     = map (\<lambda>r. \<lparr>ChartPoint.date = toISOString lib (Progress.date r),
                  weight = the (Progress.weightKg r)\<rparr>)
         (chartRows lib now db userId' days_back)"
  by (simp add: getProgressChart_def chartRows_def Let_def filter_map comp_def)

text \<open>
  C10. \<open>getProgressChart\<close> renders a list of stored progress rows: each of them
  belongs to the user, has a weight, and is dated no earlier than \<open>days\<close> days
  before now; the list is in ascending order of the dates. Every entry returned is
  the ISO date and the weight of its row.
\<close>

theorem progress_chart_entries:
  "getProgressChart lib now db userId' days_back
     = map (\<lambda>r. \<lparr>ChartPoint.date = toISOString lib (Progress.date r),
                  weight = the (Progress.weightKg r)\<rparr>)
         (chartRows lib now db userId' days_back)
   \<and> sorted (map Progress.date (chartRows lib now db userId' days_back))
   \<and> (\<forall>r \<in> set (chartRows lib now db userId' days_back).
         r \<in> set (progress db) \<and> Progress.userId r = userId'
       \<and> (\<exists>kg. Progress.weightKg r = Some kg)
       \<and> subDays lib now days_back \<le> Progress.date r)"
proof (intro conjI ballI)
  show "getProgressChart lib now db userId' days_back
     = map (\<lambda>r. \<lparr>ChartPoint.date = toISOString lib (Progress.date r),
                  weight = the (Progress.weightKg r)\<rparr>)
         (chartRows lib now db userId' days_back)"
    by (rule getProgressChart_rows)
  show "sorted (map Progress.date (chartRows lib now db userId' days_back))"
    unfolding chartRows_def by (rule sorted_filter) simp
next
  fix r assume "r \<in> set (chartRows lib now db userId' days_back)"
  then have r: "r \<in> set (progress db)" "Progress.userId r = userId'"
    "Progress.weightKg r \<noteq> None" "subDays lib now days_back \<le> Progress.date r"
    by (simp_all add: chartRows_def)
  show "r \<in> set (progress db)" by (rule r)
  show "Progress.userId r = userId'" by (rule r)
  show "\<exists>kg. Progress.weightKg r = Some kg" using r(3) by auto
  show "subDays lib now days_back \<le> Progress.date r" by (rule r)
qed

lemma sample_chart_rows:
  "chartRows sampleDates sampleNow sampleDb ''u1'' 7
     = [sampleProgress ''r3'' ''u1'' 94 (Some 71), sampleProgress ''r1'' ''u1'' 99 (Some 70)]"
  by (simp add: chartRows_def sampleDates_def sampleDb_def sampleProgress_def sampleNow_def)

theorem progress_chart_entries_witness:
  "getProgressChart sampleDates sampleNow sampleDb ''u1'' 7
     = [\<lparr>ChartPoint.date = ''8121600000'', weight = 71\<rparr>,
        \<lparr>ChartPoint.date = ''8553600000'', weight = 70\<rparr>]
   \<and> sampleProgress ''r3'' ''u1'' 94 (Some 71)
        \<in> set (chartRows sampleDates sampleNow sampleDb ''u1'' 7)
   \<and> sampleProgress ''r3'' ''u1'' 94 (Some 71) \<in> set (progress sampleDb)
   \<and> Progress.userId (sampleProgress ''r3'' ''u1'' 94 (Some 71)) = ''u1''
   \<and> Progress.weightKg (sampleProgress ''r3'' ''u1'' 94 (Some 71)) = Some 71
   \<and> subDays sampleDates sampleNow 7 \<le> Progress.date (sampleProgress ''r3'' ''u1'' 94 (Some 71))"
proof -
  note t = progress_chart_entries [of sampleDates sampleNow sampleDb "''u1''" 7]
  have m: "sampleProgress ''r3'' ''u1'' 94 (Some 71)
        \<in> set (chartRows sampleDates sampleNow sampleDb ''u1'' 7)"
    by (simp add: sample_chart_rows)
  have d: "numStr 8121600000 = ''8121600000''" "numStr 8553600000 = ''8553600000''"
    by (simp_all add: numStr_def digits.simps)
  have c: "getProgressChart sampleDates sampleNow sampleDb ''u1'' 7
     = [\<lparr>ChartPoint.date = ''8121600000'', weight = 71\<rparr>,
        \<lparr>ChartPoint.date = ''8553600000'', weight = 70\<rparr>]"
    unfolding t [THEN conjunct1] sample_chart_rows
    by (simp add: sampleProgress_def sampleDates_def d)
  have w: "Progress.weightKg (sampleProgress ''r3'' ''u1'' 94 (Some 71)) = Some 71"
    by (simp add: sampleProgress_def)
  have r: "sampleProgress ''r3'' ''u1'' 94 (Some 71) \<in> set (progress sampleDb)
   \<and> Progress.userId (sampleProgress ''r3'' ''u1'' 94 (Some 71)) = ''u1''
   \<and> subDays sampleDates sampleNow 7 \<le> Progress.date (sampleProgress ''r3'' ''u1'' 94 (Some 71))"
    using t [THEN conjunct2, THEN conjunct2, rule_format, OF m] by blast
  show ?thesis
    by (simp only: c m w r simp_thms)
qed

end
